theory Spec2Isabelle
  imports Complex_Main
begin

section \<open>The data handed to the post template\<close>

text \<open>
  The template \<^verbatim>\<open>BlogPostTemplate\<close> reads \<^verbatim>\<open>this.props.data\<close> (the result of the page
  query) and \<^verbatim>\<open>this.props.pathContext\<close> (the sibling posts). The page query selects
  \<^verbatim>\<open>site.siteMetadata.{title, author}\<close> and \<^verbatim>\<open>markdownRemark.{id, html, frontmatter.{title, date}}\<close>.
  Field names follow the source; a prefix is added where one name is a field of several
  objects (\<^verbatim>\<open>title\<close>) or is taken in HOL (\<^verbatim>\<open>id\<close>, \<^verbatim>\<open>fields\<close>).
\<close>

record post_frontmatter =
  title :: string
  date :: string

record post =
  post_id :: string
  html :: string
  frontmatter :: post_frontmatter

record site_metadata =
  site_title :: string
  author :: string

record site =
  siteMetadata :: site_metadata

text \<open>
  \<^verbatim>\<open>markdownRemark\<close> is null when no node matches the slug; \<^verbatim>\<open>site\<close> is read through
  lodash's \<^verbatim>\<open>get\<close>, which tolerates a missing object on the path.
\<close>

record page_data =
  site :: "site option"
  markdownRemark :: "post option"

record sibling_fields =
  slug :: string

record sibling_frontmatter =
  sibling_title :: string

record sibling =
  sibling_fields :: sibling_fields
  sibling_frontmatter :: sibling_frontmatter

record path_context =
  previous :: "sibling option"
  "next" :: "sibling option"

record props =
  data :: page_data
  pathContext :: path_context

section \<open>React elements\<close>

text \<open>
  What \<^verbatim>\<open>render\<close> returns: a tree of elements, each with a type (a host tag or one of
  the three imported components), its props in the order written, and its children.
  \<^verbatim>\<open>Null\<close> is the child that \<^verbatim>\<open>previous && (...)\<close> evaluates to when \<^verbatim>\<open>previous\<close> is
  null: React renders nothing for it.
\<close>

record disqus_config =
  "identifier" :: string
  config_title :: string

datatype style_value = Str string | Num int

datatype prop_value =
    PString string
  | PStyle "(string \<times> style_value) list"
  | PInnerHTML string
  | PConfig disqus_config

datatype element_type = Tag string | Helmet | Link | DiscussionEmbed

datatype element =
    Element element_type "(string \<times> prop_value) list" "element list"
  | Text string
  | Null

datatype error = TypeError

section \<open>The post template\<close>

text \<open>
  \<^verbatim>\<open>get(this.props, 'data.site.siteMetadata.title')\<close>: the value at the path, undefined
  (here \<open>None\<close>) when an object on the path is missing.
\<close>

definition get_siteTitle :: "props \<Rightarrow> string option" where
  "get_siteTitle this_props =
     (case site (data this_props) of
        None \<Rightarrow> None
      | Some s \<Rightarrow> Some (site_title (siteMetadata s)))"

text \<open>A value interpolated into a template literal: undefined becomes the text "undefined".\<close>

definition interpolate :: "string option \<Rightarrow> string" where
  "interpolate v = (case v of None \<Rightarrow> ''undefined'' | Some s \<Rightarrow> s)"

text \<open>
  The two arrows of the link labels, U+2190 and U+2192, as the bytes the source file
  holds for them (UTF-8).
\<close>

definition larr :: string where
  "larr = [CHR 0xE2, CHR 0x86, CHR 0x90]"

definition rarr :: string where
  "rarr = [CHR 0xE2, CHR 0x86, CHR 0x92]"

text \<open>
  \<^verbatim>\<open>render()\<close>. The parameter \<open>rhythm\<close> is the function of that name imported from
  the typography module (a method of the third-party Typography instance), which maps a
  number of lines to a CSS length. Reading \<^verbatim>\<open>post.id\<close> when \<^verbatim>\<open>markdownRemark\<close> is null
  raises a TypeError before anything is built.
\<close>

definition render :: "(rat \<Rightarrow> string) \<Rightarrow> props \<Rightarrow> error + element" where
  "render rhythm this_props =
     (let post_opt = markdownRemark (data this_props);
          siteTitle = get_siteTitle this_props;
          prev = previous (pathContext this_props);
          nxt = next (pathContext this_props);
          disqusShortname = ''dude-wait4-io''
      in case post_opt of
           None \<Rightarrow> Inl TypeError
         | Some post \<Rightarrow>
             (let disqusConfig =
                    \<lparr>identifier = post_id post, config_title = title (frontmatter post)\<rparr>
              in Inr (Element (Tag ''div'') []
                   [Element Helmet
                      [(''title'',
                        PString (title (frontmatter post) @ '' | '' @ interpolate siteTitle))] [],
                    Element (Tag ''h2'') [] [Text (title (frontmatter post))],
                    Element (Tag ''p'')
                      [(''style'',
                        PStyle [(''marginTop'', Str (rhythm (- (1 / 2)))),
                                (''marginBottom'', Str (rhythm 1))])]
                      [Text (date (frontmatter post))],
                    Element (Tag ''hr'')
                      [(''style'', PStyle [(''borderBottom'', Str ''0.5px #666'')])] [],
                    Element (Tag ''div'')
                      [(''dangerouslySetInnerHTML'', PInnerHTML (html post))] [],
                    Element (Tag ''hr'')
                      [(''style'', PStyle [(''marginBottom'', Str (rhythm 1))])] [],
                    Element (Tag ''ul'')
                      [(''style'',
                        PStyle [(''display'', Str ''flex''),
                                (''flexWrap'', Str ''wrap''),
                                (''justifyContent'', Str ''space-between''),
                                (''listStyle'', Str ''none''),
                                (''padding'', Num 0)])]
                      [(case prev of
                          None \<Rightarrow> Null
                        | Some p \<Rightarrow>
                            Element (Tag ''li'') []
                              [Element Link
                                 [(''to'', PString (slug (sibling_fields p))),
                                  (''rel'', PString ''prev'')]
                                 [Text (larr @ '' ''),
                                  Text (sibling_title (sibling_frontmatter p))]]),
                       (case nxt of
                          None \<Rightarrow> Null
                        | Some n \<Rightarrow>
                            Element (Tag ''li'') []
                              [Element Link
                                 [(''to'', PString (slug (sibling_fields n))),
                                  (''rel'', PString ''next'')]
                                 [Text (sibling_title (sibling_frontmatter n)),
                                  Text ('' '' @ rarr)]])],
                    Element DiscussionEmbed
                      [(''shortname'', PString disqusShortname),
                       (''config'', PConfig disqusConfig)] []])))"

section \<open>Reading a rendered tree\<close>

fun children :: "element \<Rightarrow> element list" where
  "children (Element t ps cs) = cs"
| "children _ = []"

fun element_type_of :: "element \<Rightarrow> element_type option" where
  "element_type_of (Element t ps cs) = Some t"
| "element_type_of _ = None"

fun get_prop :: "string \<Rightarrow> element \<Rightarrow> prop_value option" where
  "get_prop k (Element t ps cs) = map_of ps k"
| "get_prop k _ = None"

text \<open>The text of an element: the texts under it, in document order.\<close>

fun text_content :: "element \<Rightarrow> string" where
  "text_content (Text s) = s"
| "text_content Null = []"
| "text_content (Element t ps cs) = concat (map text_content cs)"

text \<open>All elements of a given type in a tree, in document order.\<close>

fun find_all :: "element_type \<Rightarrow> element \<Rightarrow> element list" where
  "find_all ty (Element t ps cs) =
     (if t = ty then [Element t ps cs] else []) @ concat (map (find_all ty) cs)"
| "find_all ty _ = []"

text \<open>The navigation links of a tree with a given \<^verbatim>\<open>rel\<close>, as (target, label) pairs.\<close>

definition nav_links :: "string \<Rightarrow> element \<Rightarrow> (prop_value option \<times> string) list" where
  "nav_links r e =
     map (\<lambda>l. (get_prop ''to'' l, text_content l))
       (filter (\<lambda>l. get_prop ''rel'' l = Some (PString r)) (find_all Link e))"

text \<open>The same for the result of \<^verbatim>\<open>render\<close>: a render that raised shows no link.\<close>

definition rendered_nav_links ::
  "string \<Rightarrow> error + element \<Rightarrow> (prop_value option \<times> string) list" where
  "rendered_nav_links r res = (case res of Inl e \<Rightarrow> [] | Inr tree \<Rightarrow> nav_links r tree)"

text \<open>
  Props with the author of the site metadata replaced (nothing to replace when the site
  object is missing), and the relation of two props that differ at most there.
\<close>

definition with_author :: "string \<Rightarrow> props \<Rightarrow> props" where
  "with_author a p =
     p\<lparr>data := (data p)\<lparr>site :=
        map_option (\<lambda>s. s\<lparr>siteMetadata := (siteMetadata s)\<lparr>author := a\<rparr>\<rparr>) (site (data p))\<rparr>\<rparr>"

definition differ_only_in_author :: "props \<Rightarrow> props \<Rightarrow> bool" where
  "differ_only_in_author p q = (with_author [] p = with_author [] q)"

section \<open>The typography module\<close>

text \<open>
  \<^verbatim>\<open>overrideThemeStyles = ({ rhythm }, options) => ({ ... })\<close>. The parameter pattern
  \<^verbatim>\<open>{ rhythm }\<close> reads the \<^verbatim>\<open>rhythm\<close> property of the first argument: that raises a
  TypeError when the argument is undefined or null, and gives undefined (\<open>None\<close>) when
  the argument is any other value without that property. Neither \<^verbatim>\<open>rhythm\<close> nor
  \<^verbatim>\<open>options\<close> is used in the body. The result is an object of CSS rules, selector to
  declarations, kept in the order written.
\<close>

datatype 'a js_arg = Undefined | JsNull | Object 'a

record vertical_rhythm =
  vr_rhythm :: "(rat \<Rightarrow> string) option"

definition overrideThemeStyles ::
  "'more vertical_rhythm_scheme js_arg \<Rightarrow> 'options \<Rightarrow>
     error + (string \<times> (string \<times> string) list) list" where
  "overrideThemeStyles arg options =
     (case arg of
        Undefined \<Rightarrow> Inl TypeError
      | JsNull \<Rightarrow> Inl TypeError
      | Object vr \<Rightarrow>
          (let rhythm = vr_rhythm vr
           in Inr [(''a'', [(''color'', ''#3889f7''), (''backgroundImage'', ''none'')]),
                   (''a:hover'',
                    [(''color'', ''#e13532''), (''textDecoration'', ''underline'')])]))"

text \<open>
  Loading the module: the calls it makes on the third-party library, in order. The
  argument is \<^verbatim>\<open>process.env.NODE_ENV\<close>, undefined (\<open>None\<close>) when the variable is not set;
  \<^verbatim>\<open>!==\<close> compares it with the string \<^verbatim>\<open>'production'\<close>.
\<close>

datatype effect = AssignOverrideThemeStyles | NewTypography | InjectStyles

definition typography_module :: "string option \<Rightarrow> effect list" where
  "typography_module NODE_ENV =
     [AssignOverrideThemeStyles, NewTypography] @
     (if NODE_ENV \<noteq> Some ''production'' then [InjectStyles] else [])"

section \<open>Example inputs\<close>

definition example_post :: post where
  "example_post =
     \<lparr>post_id = ''p-42'', html = ''<p>Hello <b>world</b></p>'',
      frontmatter = \<lparr>title = ''Middle'', date = ''May 25, 2018''\<rparr>\<rparr>"

definition example_older :: sibling where
  "example_older =
     \<lparr>sibling_fields = \<lparr>slug = ''/older/''\<rparr>,
      sibling_frontmatter = \<lparr>sibling_title = ''Older''\<rparr>\<rparr>"

definition example_newer :: sibling where
  "example_newer =
     \<lparr>sibling_fields = \<lparr>slug = ''/newer/''\<rparr>,
      sibling_frontmatter = \<lparr>sibling_title = ''Newer''\<rparr>\<rparr>"

definition example_site :: site where
  "example_site = \<lparr>siteMetadata = \<lparr>site_title = ''Blog'', author = ''N''\<rparr>\<rparr>"

definition example_props :: "sibling option \<Rightarrow> sibling option \<Rightarrow> props" where
  "example_props p n =
     \<lparr>data = \<lparr>site = Some example_site, markdownRemark = Some example_post\<rparr>,
      pathContext = \<lparr>previous = p, next = n\<rparr>\<rparr>"

definition example_rhythm :: "rat \<Rightarrow> string" where
  "example_rhythm x = (if x < 0 then ''-0.8rem'' else ''1.6rem'')"

section \<open>Navigation links\<close>

text \<open>
  C1 (as amended). When the post is there and the page context has both a previous and a
  next sibling, \<^verbatim>\<open>render\<close> returns a tree with exactly two links, in this order: one
  with \<^verbatim>\<open>rel="prev"\<close>, whose target is \<^verbatim>\<open>previous.fields.slug\<close> and whose label is a left
  arrow, a space and \<^verbatim>\<open>previous.frontmatter.title\<close>; and one with \<^verbatim>\<open>rel="next"\<close>, whose
  target is \<^verbatim>\<open>next.fields.slug\<close> and whose label is \<^verbatim>\<open>next.frontmatter.title\<close>, a space
  and a right arrow.
\<close>

theorem both_links_render:
  assumes "markdownRemark (data p) = Some post"
    and "previous (pathContext p) = Some pv"
    and "next (pathContext p) = Some nx"
  shows "\<exists>tree. render rhythm p = Inr tree \<and>
           map (\<lambda>l. (get_prop ''rel'' l, get_prop ''to'' l, text_content l)) (find_all Link tree) =
             [(Some (PString ''prev''), Some (PString (slug (sibling_fields pv))),
               larr @ '' '' @ sibling_title (sibling_frontmatter pv)),
              (Some (PString ''next''), Some (PString (slug (sibling_fields nx))),
               sibling_title (sibling_frontmatter nx) @ '' '' @ rarr)]"
  using assms by (simp add: render_def Let_def)

text \<open>The theorem at the example post between the posts "Older" and "Newer".\<close>

theorem both_links_render_witness:
  "\<exists>tree. render example_rhythm (example_props (Some example_older) (Some example_newer)) = Inr tree \<and>
           map (\<lambda>l. (get_prop ''rel'' l, get_prop ''to'' l, text_content l)) (find_all Link tree) =
             [(Some (PString ''prev''), Some (PString ''/older/''), larr @ '' Older''),
              (Some (PString ''next''), Some (PString ''/newer/''), ''Newer '' @ rarr)]"
  using both_links_render [of "example_props (Some example_older) (Some example_newer)"
      example_post example_older example_newer example_rhythm]
  by (simp add: example_props_def example_older_def example_newer_def)

text \<open>
  C1 as it is written fails: the label of the previous link is not the previous post's
  title alone. For the sibling titled "Older" the one link with \<^verbatim>\<open>rel="prev"\<close> reads
  arrow, space, "Older".
\<close>

theorem prev_label_is_not_the_title:
  "rendered_nav_links ''prev''
     (render example_rhythm (example_props (Some example_older) (Some example_newer)))
     = [(Some (PString ''/older/''), larr @ '' Older'')] \<and>
   rendered_nav_links ''prev''
     (render example_rhythm (example_props (Some example_older) (Some example_newer)))
     \<noteq> [(Some (PString ''/older/''), ''Older'')]"
  by (simp add: rendered_nav_links_def nav_links_def render_def Let_def example_props_def
        example_older_def example_newer_def example_post_def larr_def)

text \<open>
  C2. When the post is there, \<^verbatim>\<open>render\<close> returns a tree whatever the siblings are (no
  error is raised). Its seventh child is the list of links; when \<^verbatim>\<open>previous\<close> is absent
  the first child of that list is the empty child and no link with \<^verbatim>\<open>rel="prev"\<close> occurs
  anywhere in the tree; when \<^verbatim>\<open>next\<close> is absent the same holds of the second child and
  \<^verbatim>\<open>rel="next"\<close>. The tree holds one link for each sibling present and no other.
\<close>

theorem missing_sibling_link_omitted:
  assumes "markdownRemark (data p) = Some post"
  shows "\<exists>tree ul. render rhythm p = Inr tree \<and>
           children tree ! 6 = ul \<and> element_type_of ul = Some (Tag ''ul'') \<and>
           (previous (pathContext p) = None \<longrightarrow>
              children ul ! 0 = Null \<and> nav_links ''prev'' tree = []) \<and>
           (next (pathContext p) = None \<longrightarrow>
              children ul ! 1 = Null \<and> nav_links ''next'' tree = []) \<and>
           length (find_all Link tree) =
             (case previous (pathContext p) of None \<Rightarrow> 0 | Some pv \<Rightarrow> 1) +
             (case next (pathContext p) of None \<Rightarrow> 0 | Some nx \<Rightarrow> 1)"
  using assms by (simp add: render_def Let_def nav_links_def split: option.splits)

text \<open>The theorem at the first post of the sequence, at the last one and at an only post.\<close>

theorem missing_sibling_link_omitted_witness:
  "(\<exists>tree. render example_rhythm (example_props None (Some example_newer)) = Inr tree \<and>
      children (children tree ! 6) ! 0 = Null \<and> nav_links ''prev'' tree = [] \<and>
      length (find_all Link tree) = 1) \<and>
   (\<exists>tree. render example_rhythm (example_props (Some example_older) None) = Inr tree \<and>
      children (children tree ! 6) ! 1 = Null \<and> nav_links ''next'' tree = [] \<and>
      length (find_all Link tree) = 1) \<and>
   (\<exists>tree. render example_rhythm (example_props None None) = Inr tree \<and>
      children (children tree ! 6) ! 0 = Null \<and> children (children tree ! 6) ! 1 = Null \<and>
      length (find_all Link tree) = 0)"
proof -
  have first: "\<exists>tree. render example_rhythm (example_props None (Some example_newer)) = Inr tree \<and>
      children (children tree ! 6) ! 0 = Null \<and> nav_links ''prev'' tree = [] \<and>
      length (find_all Link tree) = 1"
    using missing_sibling_link_omitted
      [of "example_props None (Some example_newer)" example_post example_rhythm]
    by (auto simp add: example_props_def)
  have last: "\<exists>tree. render example_rhythm (example_props (Some example_older) None) = Inr tree \<and>
      children (children tree ! 6) ! 1 = Null \<and> nav_links ''next'' tree = [] \<and>
      length (find_all Link tree) = 1"
    using missing_sibling_link_omitted
      [of "example_props (Some example_older) None" example_post example_rhythm]
    by (auto simp add: example_props_def)
  have only: "\<exists>tree. render example_rhythm (example_props None None) = Inr tree \<and>
      children (children tree ! 6) ! 0 = Null \<and> children (children tree ! 6) ! 1 = Null \<and>
      length (find_all Link tree) = 0"
    using missing_sibling_link_omitted
      [of "example_props None None" example_post example_rhythm]
    by (auto simp add: example_props_def)
  from first last only show ?thesis by blast
qed

section \<open>Head, body and comment widget\<close>

text \<open>
  C3. When the post and the site metadata are there, the tree has one \<^verbatim>\<open>Helmet\<close> element
  and its title is the post's frontmatter title, then \<^verbatim>\<open>" | "\<close>, then the site title.
\<close>

theorem page_title:
  assumes "markdownRemark (data p) = Some post"
    and "site (data p) = Some s"
  shows "\<exists>tree. render rhythm p = Inr tree \<and>
           map (get_prop ''title'') (find_all Helmet tree) =
             [Some (PString (title (frontmatter post) @ '' | '' @ site_title (siteMetadata s)))]"
  using assms
  by (simp add: render_def Let_def get_siteTitle_def interpolate_def split: option.splits)

theorem page_title_witness:
  "\<exists>tree. render example_rhythm (example_props None None) = Inr tree \<and>
           map (get_prop ''title'') (find_all Helmet tree) = [Some (PString ''Middle | Blog'')]"
  using page_title [of "example_props None None" example_post example_site example_rhythm]
  by (simp add: example_props_def example_post_def example_site_def)

text \<open>
  C4. When the post is there, exactly one child of the returned tree sets its inner HTML:
  a \<^verbatim>\<open>div\<close> with no other prop and no children, whose inner HTML is \<^verbatim>\<open>post.html\<close>, the
  string as it was received.
\<close>

theorem body_is_raw_html:
  assumes "markdownRemark (data p) = Some post"
  shows "\<exists>tree. render rhythm p = Inr tree \<and>
           filter (\<lambda>e. get_prop ''dangerouslySetInnerHTML'' e \<noteq> None) (children tree) =
             [Element (Tag ''div'') [(''dangerouslySetInnerHTML'', PInnerHTML (html post))] []]"
  using assms by (simp add: render_def Let_def split: option.splits)

theorem body_is_raw_html_witness:
  "\<exists>tree. render example_rhythm (example_props None None) = Inr tree \<and>
           filter (\<lambda>e. get_prop ''dangerouslySetInnerHTML'' e \<noteq> None) (children tree) =
             [Element (Tag ''div'')
                [(''dangerouslySetInnerHTML'', PInnerHTML ''<p>Hello <b>world</b></p>'')] []]"
  using body_is_raw_html [of "example_props None None" example_post example_rhythm]
  by (simp add: example_props_def example_post_def)

text \<open>
  C5. When the post is there, the tree has one \<^verbatim>\<open>DiscussionEmbed\<close> element; it has a
  \<^verbatim>\<open>shortname\<close> (a string) and a \<^verbatim>\<open>config\<close> whose identifier is the post's id and whose
  title is the post's frontmatter title.
\<close>

theorem embed_config:
  assumes "markdownRemark (data p) = Some post"
  shows "\<exists>tree embed shortname config. render rhythm p = Inr tree \<and>
           find_all DiscussionEmbed tree = [embed] \<and>
           get_prop ''shortname'' embed = Some (PString shortname) \<and>
           get_prop ''config'' embed = Some (PConfig config) \<and>
           identifier config = post_id post \<and>
           config_title config = title (frontmatter post)"
  using assms by (simp add: render_def Let_def split: option.splits)

theorem embed_config_witness:
  "\<exists>tree embed shortname config.
      render example_rhythm (example_props None None) = Inr tree \<and>
      find_all DiscussionEmbed tree = [embed] \<and>
      get_prop ''shortname'' embed = Some (PString shortname) \<and>
      get_prop ''config'' embed = Some (PConfig config) \<and>
      identifier config = ''p-42'' \<and> config_title config = ''Middle''"
  using embed_config [of "example_props None None" example_post example_rhythm]
  by (simp add: example_props_def example_post_def)

section \<open>The typography module's rules and its load\<close>

text \<open>
  C6 (as amended). Called with a first argument that is neither undefined nor null, and
  with any options, \<^verbatim>\<open>overrideThemeStyles\<close> returns two rules, for the selectors \<^verbatim>\<open>a\<close>
  and \<^verbatim>\<open>a:hover\<close>: the first sets \<^verbatim>\<open>color\<close> to \<^verbatim>\<open>#3889f7\<close> and \<^verbatim>\<open>backgroundImage\<close> to
  \<^verbatim>\<open>none\<close>, the second sets \<^verbatim>\<open>color\<close> to \<^verbatim>\<open>#e13532\<close> and \<^verbatim>\<open>textDecoration\<close> to
  \<^verbatim>\<open>underline\<close>; neither sets anything else.
\<close>

theorem override_rules:
  assumes "arg \<noteq> Undefined" and "arg \<noteq> JsNull"
  shows "\<exists>rules. overrideThemeStyles arg options = Inr rules \<and>
           map fst rules = [''a'', ''a:hover''] \<and>
           map_of rules ''a'' = Some [(''color'', ''#3889f7''), (''backgroundImage'', ''none'')] \<and>
           map_of rules ''a:hover'' =
             Some [(''color'', ''#e13532''), (''textDecoration'', ''underline'')]"
  using assms by (cases arg) (simp_all add: overrideThemeStyles_def)

text \<open>
  The theorem at a vertical-rhythm object with a \<^verbatim>\<open>rhythm\<close> function and at an object
  without one.
\<close>

theorem override_rules_witness:
  "(\<exists>rules. overrideThemeStyles (Object \<lparr>vr_rhythm = Some example_rhythm\<rparr>) ''options'' = Inr rules \<and>
      map fst rules = [''a'', ''a:hover''] \<and>
      map_of rules ''a'' = Some [(''color'', ''#3889f7''), (''backgroundImage'', ''none'')] \<and>
      map_of rules ''a:hover'' =
        Some [(''color'', ''#e13532''), (''textDecoration'', ''underline'')]) \<and>
   (\<exists>rules. overrideThemeStyles (Object \<lparr>vr_rhythm = None\<rparr>) ''options'' = Inr rules \<and>
      map fst rules = [''a'', ''a:hover''] \<and>
      map_of rules ''a'' = Some [(''color'', ''#3889f7''), (''backgroundImage'', ''none'')] \<and>
      map_of rules ''a:hover'' =
        Some [(''color'', ''#e13532''), (''textDecoration'', ''underline'')])"
  using override_rules [of "Object \<lparr>vr_rhythm = Some example_rhythm\<rparr>" "''options''"]
    override_rules [of "Object \<lparr>vr_rhythm = None\<rparr>" "''options''"]
  by simp

text \<open>
  C6 as it is written fails: with undefined or null as its first argument the function
  raises a TypeError and returns no rules.
\<close>

theorem override_raises_on_nullish:
  "overrideThemeStyles (Undefined :: vertical_rhythm js_arg) ''options'' = Inl TypeError \<and>
   overrideThemeStyles (JsNull :: vertical_rhythm js_arg) ''options'' = Inl TypeError"
  by (simp add: overrideThemeStyles_def)

text \<open>
  C7. Loading the typography module calls \<^verbatim>\<open>injectStyles\<close> if and only if
  \<^verbatim>\<open>NODE_ENV\<close> is not the string \<^verbatim>\<open>production\<close>, and then once; in production it is never
  called.
\<close>

theorem inject_iff_not_production:
  "(InjectStyles \<in> set (typography_module NODE_ENV) \<longleftrightarrow> NODE_ENV \<noteq> Some ''production'') \<and>
   count_list (typography_module NODE_ENV) InjectStyles =
     (if NODE_ENV = Some ''production'' then 0 else 1)"
  by (simp add: typography_module_def)

text \<open>The theorem in production, in development and with the variable unset.\<close>

theorem inject_iff_not_production_witness:
  "InjectStyles \<notin> set (typography_module (Some ''production'')) \<and>
   InjectStyles \<in> set (typography_module (Some ''development'')) \<and>
   InjectStyles \<in> set (typography_module None) \<and>
   count_list (typography_module (Some ''development'')) InjectStyles = 1"
  using inject_iff_not_production [of "Some ''production''"]
    inject_iff_not_production [of "Some ''development''"]
    inject_iff_not_production [of None]
  by simp

section \<open>The whole fragment\<close>

text \<open>
  C8. When the post is there, \<^verbatim>\<open>render\<close> returns a \<^verbatim>\<open>div\<close> with eight children, in this
  order: the \<^verbatim>\<open>Helmet\<close> element carrying the page title, the \<^verbatim>\<open>h2\<close> heading with the
  post title, the paragraph with the date as the query formatted it, a rule, the \<^verbatim>\<open>div\<close>
  whose inner HTML is the post's HTML, a rule, the list of navigation links, and the
  \<^verbatim>\<open>DiscussionEmbed\<close> element with its shortname and the post's discussion
  configuration. The list has two children, each a list item or the empty child; it
  holds every link of the tree: the previous link (target, arrow and title) when there
  is a previous sibling, then the next link when there is a next sibling.
\<close>

theorem render_order:
  assumes "markdownRemark (data p) = Some post"
  shows "\<exists>tree head heading dateline rule1 body rule2 nav embed.
           render rhythm p = Inr tree \<and>
           element_type_of tree = Some (Tag ''div'') \<and>
           children tree = [head, heading, dateline, rule1, body, rule2, nav, embed] \<and>
           element_type_of head = Some Helmet \<and>
           get_prop ''title'' head =
             Some (PString (title (frontmatter post) @ '' | '' @ interpolate (get_siteTitle p))) \<and>
           element_type_of heading = Some (Tag ''h2'') \<and>
           children heading = [Text (title (frontmatter post))] \<and>
           element_type_of dateline = Some (Tag ''p'') \<and>
           children dateline = [Text (date (frontmatter post))] \<and>
           element_type_of rule1 = Some (Tag ''hr'') \<and>
           element_type_of body = Some (Tag ''div'') \<and>
           get_prop ''dangerouslySetInnerHTML'' body = Some (PInnerHTML (html post)) \<and>
           children body = [] \<and>
           element_type_of rule2 = Some (Tag ''hr'') \<and>
           element_type_of nav = Some (Tag ''ul'') \<and>
           find_all Link nav = find_all Link tree \<and>
           map element_type_of (children nav) =
             [(case previous (pathContext p) of None \<Rightarrow> None | Some pv \<Rightarrow> Some (Tag ''li'')),
              (case next (pathContext p) of None \<Rightarrow> None | Some nx \<Rightarrow> Some (Tag ''li''))] \<and>
           map (\<lambda>l. (get_prop ''rel'' l, get_prop ''to'' l, text_content l)) (find_all Link nav) =
             (case previous (pathContext p) of
                None \<Rightarrow> []
              | Some pv \<Rightarrow>
                  [(Some (PString ''prev''), Some (PString (slug (sibling_fields pv))),
                    larr @ '' '' @ sibling_title (sibling_frontmatter pv))]) @
             (case next (pathContext p) of
                None \<Rightarrow> []
              | Some nx \<Rightarrow>
                  [(Some (PString ''next''), Some (PString (slug (sibling_fields nx))),
                    sibling_title (sibling_frontmatter nx) @ '' '' @ rarr)]) \<and>
           element_type_of embed = Some DiscussionEmbed \<and>
           get_prop ''shortname'' embed = Some (PString ''dude-wait4-io'') \<and>
           get_prop ''config'' embed =
             Some (PConfig \<lparr>identifier = post_id post,
                            config_title = title (frontmatter post)\<rparr>)"
  using assms by (simp add: render_def Let_def split: option.splits)

text \<open>The theorem at the example post between the posts "Older" and "Newer".\<close>

theorem render_order_witness:
  "\<exists>tree head heading dateline rule1 body rule2 nav embed.
      render example_rhythm (example_props (Some example_older) (Some example_newer)) = Inr tree \<and>
      element_type_of tree = Some (Tag ''div'') \<and>
      children tree = [head, heading, dateline, rule1, body, rule2, nav, embed] \<and>
      element_type_of head = Some Helmet \<and>
      get_prop ''title'' head = Some (PString ''Middle | Blog'') \<and>
      element_type_of heading = Some (Tag ''h2'') \<and>
      children heading = [Text ''Middle''] \<and>
      element_type_of dateline = Some (Tag ''p'') \<and>
      children dateline = [Text ''May 25, 2018''] \<and>
      element_type_of rule1 = Some (Tag ''hr'') \<and>
      element_type_of body = Some (Tag ''div'') \<and>
      get_prop ''dangerouslySetInnerHTML'' body = Some (PInnerHTML ''<p>Hello <b>world</b></p>'') \<and>
      children body = [] \<and>
      element_type_of rule2 = Some (Tag ''hr'') \<and>
      element_type_of nav = Some (Tag ''ul'') \<and>
      find_all Link nav = find_all Link tree \<and>
      map element_type_of (children nav) = [Some (Tag ''li''), Some (Tag ''li'')] \<and>
      map (\<lambda>l. (get_prop ''rel'' l, get_prop ''to'' l, text_content l)) (find_all Link nav) =
        [(Some (PString ''prev''), Some (PString ''/older/''), larr @ '' Older''),
         (Some (PString ''next''), Some (PString ''/newer/''), ''Newer '' @ rarr)] \<and>
      element_type_of embed = Some DiscussionEmbed \<and>
      get_prop ''shortname'' embed = Some (PString ''dude-wait4-io'') \<and>
      get_prop ''config'' embed =
        Some (PConfig \<lparr>identifier = ''p-42'', config_title = ''Middle''\<rparr>)"
  using render_order [of "example_props (Some example_older) (Some example_newer)"
      example_post example_rhythm]
  by (simp add: example_props_def example_post_def example_site_def example_older_def
        example_newer_def get_siteTitle_def interpolate_def)

section \<open>What the rendered page does not depend on\<close>

text \<open>
  C9. When the post is there, the \<^verbatim>\<open>shortname\<close> of the one \<^verbatim>\<open>DiscussionEmbed\<close> element is
  the constant \<^verbatim>\<open>dude-wait4-io\<close>, whatever the props and the rhythm function are.
\<close>

theorem shortname_constant:
  assumes "markdownRemark (data p) = Some post"
  shows "\<exists>tree. render rhythm p = Inr tree \<and>
           map (get_prop ''shortname'') (find_all DiscussionEmbed tree) =
             [Some (PString ''dude-wait4-io'')]"
  using assms by (simp add: render_def Let_def split: option.splits)

theorem shortname_constant_witness:
  "\<exists>tree. render example_rhythm (example_props None (Some example_newer)) = Inr tree \<and>
           map (get_prop ''shortname'') (find_all DiscussionEmbed tree) =
             [Some (PString ''dude-wait4-io'')]"
  using shortname_constant [of "example_props None (Some example_newer)" example_post example_rhythm]
  by (simp add: example_props_def)

text \<open>Replacing the author changes nothing \<^verbatim>\<open>render\<close> reads.\<close>

lemma render_with_author: "render rhythm (with_author a p) = render rhythm p"
  by (cases "site (data p)") (simp_all add: render_def with_author_def get_siteTitle_def Let_def)

text \<open>
  C10. Two props that differ only in the author of the site metadata render to the same
  result.
\<close>

theorem author_irrelevant:
  assumes "differ_only_in_author p q"
  shows "render rhythm p = render rhythm q"
proof -
  have "render rhythm p = render rhythm (with_author [] p)"
    by (simp only: render_with_author)
  also have "\<dots> = render rhythm (with_author [] q)"
    using assms by (simp only: differ_only_in_author_def)
  also have "\<dots> = render rhythm q"
    by (simp only: render_with_author)
  finally show ?thesis .
qed

text \<open>The theorem at the example props and the same props with another author.\<close>

theorem author_irrelevant_witness:
  "example_props None None \<noteq> with_author ''M'' (example_props None None) \<and>
   differ_only_in_author (example_props None None) (with_author ''M'' (example_props None None)) \<and>
   render example_rhythm (example_props None None) =
     render example_rhythm (with_author ''M'' (example_props None None))"
proof -
  have d: "differ_only_in_author (example_props None None)
             (with_author ''M'' (example_props None None))"
    by (simp add: differ_only_in_author_def with_author_def example_props_def example_site_def)
  have n: "example_props None None \<noteq> with_author ''M'' (example_props None None)"
    by (simp add: with_author_def example_props_def example_site_def)
  from n d author_irrelevant [OF d, of example_rhythm] show ?thesis by simp
qed

end
